theory Spec2Isabelle
  imports Main "HOL-Library.AList" "HOL-Library.Monad_Syntax"
begin

section \<open>JavaScript values\<close>

text \<open>
  The values the library handles: primitives, functions (by name) and references to
  objects in a heap. Numbers are the integers the code uses (status codes, the
  timeout); floating point plays no part in the library.
\<close>

datatype val =
    VUndefined
  | VNull
  | VBool bool
  | VNum int
  | VStr string
  | VFun string
  | VRef nat

text \<open>The \<^verbatim>\<open>typeof\<close> operator; \<^verbatim>\<open>typeof null\<close> is \<^verbatim>\<open>'object'\<close>.\<close>

fun typeof :: "val \<Rightarrow> string" where
  "typeof VUndefined = ''undefined''"
| "typeof VNull = ''object''"
| "typeof (VBool b) = ''boolean''"
| "typeof (VNum n) = ''number''"
| "typeof (VStr s) = ''string''"
| "typeof (VFun f) = ''function''"
| "typeof (VRef a) = ''object''"

text \<open>Truthiness, as \<^verbatim>\<open>||\<close> and \<^verbatim>\<open>!\<close> test it.\<close>

fun truthy :: "val \<Rightarrow> bool" where
  "truthy VUndefined = False"
| "truthy VNull = False"
| "truthy (VBool b) = b"
| "truthy (VNum n) = (n \<noteq> 0)"
| "truthy (VStr s) = (s \<noteq> [])"
| "truthy (VFun f) = True"
| "truthy (VRef a) = True"

section \<open>Strings\<close>

text \<open>
  \<^verbatim>\<open>String.prototype.indexOf\<close>: the position of the first occurrence of the
  pattern, or -1. The hooks only compare the result with 0 for ASCII patterns, so the
  unit of the position (byte or UTF-16 code unit) does not matter.
\<close>

fun starts_with :: "string \<Rightarrow> string \<Rightarrow> bool" where
  "starts_with s [] = True"
| "starts_with [] (p # ps) = False"
| "starts_with (c # cs) (p # ps) = (c = p \<and> starts_with cs ps)"

fun indexOf_from :: "nat \<Rightarrow> string \<Rightarrow> string \<Rightarrow> int" where
  "indexOf_from i [] p = (if p = [] then int i else - 1)"
| "indexOf_from i (c # cs) p =
     (if starts_with (c # cs) p then int i else indexOf_from (Suc i) cs p)"

definition indexOf :: "string \<Rightarrow> string \<Rightarrow> int" where
  "indexOf s p = indexOf_from 0 s p"

section \<open>Responses and failures\<close>

text \<open>
  The configuration as the response hooks read it: \<^verbatim>\<open>response.config.headers\<close> is a
  mapping from header names to string values; a name that is not set reads as
  \<^verbatim>\<open>undefined\<close>, here \<open>None\<close>.
\<close>

record request_config =
  headers :: "string \<rightharpoonup> string"
  cancelToken :: val
  cancelSource :: val

record response =
  status :: int
  statusText :: string
  response_headers :: "string \<rightharpoonup> string"
  config :: request_config
  request :: val
  data :: val

text \<open>
  A failure object. \<open>instanceof_SyntaxError\<close> is what \<^verbatim>\<open>ex instanceof SyntaxError\<close>
  yields. The four query methods are absent (\<open>None\<close>) until the rejected-response
  hook installs them; \<open>Some b\<close> is the method \<^verbatim>\<open>() => b\<close>.
\<close>

record js_error =
  instanceof_SyntaxError :: bool
  ex_message :: string
  ex_response :: "response option"
  ex_config :: "request_config option"
  isFormat :: "bool option"
  isCancel :: "bool option"
  isNetwork :: "bool option"
  isValidation :: "bool option"

text \<open>
  What the code raises: the failure object a hook was given, or the
  \<^verbatim>\<open>TypeError\<close> of the language itself (a property read on \<^verbatim>\<open>undefined\<close>
  or \<^verbatim>\<open>null\<close>). \<open>Dangling\<close> is no outcome of JavaScript: it marks a read
  through a reference that the heap of the model does not hold.
\<close>

datatype thrown = TypeError | Thrown js_error | Dangling

section \<open>The rejected-response hook\<close>

text \<open>
  \<^verbatim>\<open>
  const rejectedResponseInterceptor = ex => {
      ex.isFormat = ex.isCancel = ex.isNetwork = ex.isValidation = () => false;
      if (ex instanceof SyntaxError) {
          ex.isFormat = () => true;
      } else if (axios.isCancel(ex)) {
          ex.isCancel = () => true;
      } else if (!ex.response) {
          ex.isNetwork = () => true;
      } else if (ex.response.status === 422) {
          ex.isValidation = () => true;
      }
      throw ex;
  };
  \<close>
  \<^verbatim>\<open>axios.isCancel\<close> belongs to the transport and is a parameter. The hook never
  returns: its result is always \<open>Inl\<close>.
\<close>

definition cleared :: "js_error \<Rightarrow> js_error" where
  "cleared ex = ex\<lparr>isFormat := Some False, isCancel := Some False,
                   isNetwork := Some False, isValidation := Some False\<rparr>"

definition rejectedResponseInterceptor ::
    "(js_error \<Rightarrow> bool) \<Rightarrow> js_error \<Rightarrow> thrown + response" where
  "rejectedResponseInterceptor axios_isCancel ex =
     (let ex0 = cleared ex in
      Inl (Thrown
        (if instanceof_SyntaxError ex0 then ex0\<lparr>isFormat := Some True\<rparr>
         else if axios_isCancel ex0 then ex0\<lparr>isCancel := Some True\<rparr>
         else (case ex_response ex0 of
                 None \<Rightarrow> ex0\<lparr>isNetwork := Some True\<rparr>
               | Some r \<Rightarrow>
                   if status r = 422 then ex0\<lparr>isValidation := Some True\<rparr>
                   else ex0))))"

section \<open>The fulfilled-response hook\<close>

text \<open>
  \<^verbatim>\<open>
  const fulfilledResponseInterceptor = response => {
      const accept = response.config.headers['Accept'];
      const theResponseIsFine =
          accept.indexOf('application/json') < 0
          || accept.indexOf(',') > 0
          || typeof response.data === 'object';
      if (theResponseIsFine) return response;
      try {
          JSON.parse(response.data);
          return response;
      } catch (ex) {
          ex.response = response;
          ex.config = response.config;
          return rejectedResponseInterceptor(ex);
      }
  };
  \<close>
  \<^verbatim>\<open>JSON.parse\<close> belongs to the language and is a parameter: \<open>JSON_parse v\<close> is
  \<open>None\<close> when \<^verbatim>\<open>JSON.parse(v)\<close> returns, and \<open>Some m\<close> when it throws a
  \<^verbatim>\<open>SyntaxError\<close> with message \<open>m\<close>. With \<^verbatim>\<open>accept\<close> undefined, the call
  \<^verbatim>\<open>accept.indexOf\<close> raises a \<^verbatim>\<open>TypeError\<close>.
\<close>

definition syntax_error :: "string \<Rightarrow> js_error" where
  "syntax_error m =
     \<lparr>instanceof_SyntaxError = True, ex_message = m, ex_response = None,
      ex_config = None, isFormat = None, isCancel = None, isNetwork = None,
      isValidation = None\<rparr>"

definition fulfilledResponseInterceptor ::
    "(val \<Rightarrow> string option) \<Rightarrow> (js_error \<Rightarrow> bool) \<Rightarrow> response \<Rightarrow> thrown + response" where
  "fulfilledResponseInterceptor JSON_parse axios_isCancel response =
     (case headers (config response) ''Accept'' of
        None \<Rightarrow> Inl TypeError
      | Some accept \<Rightarrow>
          if indexOf accept ''application/json'' < 0
             \<or> indexOf accept '','' > 0
             \<or> typeof (data response) = ''object''
          then Inr response
          else (case JSON_parse (data response) of
                  None \<Rightarrow> Inr response
                | Some m \<Rightarrow>
                    rejectedResponseInterceptor axios_isCancel
                      ((syntax_error m)\<lparr>ex_response := Some response,
                                         ex_config := Some (config response)\<rparr>)))"

section \<open>The classification the specification describes\<close>

text \<open>
  The five outcomes and the priority list of the specification, written from its
  words: parsing error, then cancellation, then no response, then status 422, then
  unclassified. The cancellation predicate is asked about the failure as the hook
  holds it when it asks, that is with the four methods freshly installed.
\<close>

datatype classification = Format | Cancelled | Network | Validation | Other

definition first_matching_rule :: "(js_error \<Rightarrow> bool) \<Rightarrow> js_error \<Rightarrow> classification" where
  "first_matching_rule recognises ex =
     (if instanceof_SyntaxError ex then Format
      else if recognises (cleared ex) then Cancelled
      else if ex_response ex = None then Network
      else if map_option status (ex_response ex) = Some 422 then Validation
      else Other)"

text \<open>The answers of the four methods, in the order format, cancel, network, validation.\<close>

definition answers :: "js_error \<Rightarrow> bool option list" where
  "answers e = [isFormat e, isCancel e, isNetwork e, isValidation e]"

fun answers_of :: "classification \<Rightarrow> bool option list" where
  "answers_of Format = [Some True, Some False, Some False, Some False]"
| "answers_of Cancelled = [Some False, Some True, Some False, Some False]"
| "answers_of Network = [Some False, Some False, Some True, Some False]"
| "answers_of Validation = [Some False, Some False, Some False, Some True]"
| "answers_of Other = [Some False, Some False, Some False, Some False]"

text \<open>How many of the four methods answer true.\<close>

definition true_count :: "js_error \<Rightarrow> nat" where
  "true_count e = length (filter (\<lambda>a. a = Some True) (answers e))"

section \<open>Objects in a heap\<close>

text \<open>
  An object is the list of its own enumerable properties in insertion order; the heap
  is the list of all objects, and a reference is an index into it. An array is the
  object of its index properties \<^verbatim>\<open>"0"\<close>, \<^verbatim>\<open>"1"\<close>, ...
\<close>

type_synonym obj = "(string \<times> val) list"
type_synonym heap = "obj list"

definition alloc :: "heap \<Rightarrow> obj \<Rightarrow> heap \<times> nat" where
  "alloc h ob = (h @ [ob], length h)"

text \<open>
  Reading a property: a \<^verbatim>\<open>TypeError\<close> on \<^verbatim>\<open>undefined\<close> and \<^verbatim>\<open>null\<close>,
  \<^verbatim>\<open>undefined\<close> for a property the object does not have. The names the library
  reads are no properties of a primitive or of a function.
\<close>

fun get_prop :: "heap \<Rightarrow> val \<Rightarrow> string \<Rightarrow> thrown + val" where
  "get_prop h VUndefined k = Inl TypeError"
| "get_prop h VNull k = Inl TypeError"
| "get_prop h (VRef a) k =
     (if a < length h
      then Inr (case map_of (h ! a) k of None \<Rightarrow> VUndefined | Some v \<Rightarrow> v)
      else Inl Dangling)"
| "get_prop h v k = Inr VUndefined"

text \<open>Reading along a path of property names, as \<^verbatim>\<open>v.a.b\<close> does.\<close>

fun get_path :: "heap \<Rightarrow> val \<Rightarrow> string list \<Rightarrow> thrown + val" where
  "get_path h v [] = Inr v"
| "get_path h v (k # ks) =
     (case get_prop h v k of Inl e \<Rightarrow> Inl e | Inr w \<Rightarrow> get_path h w ks)"

text \<open>
  Writing a property, \<^verbatim>\<open>v.k = x\<close>: a \<^verbatim>\<open>TypeError\<close> on \<^verbatim>\<open>undefined\<close> and
  \<^verbatim>\<open>null\<close>; on a primitive the write is dropped (the module is not in strict mode).
\<close>

definition set_prop :: "heap \<Rightarrow> nat \<Rightarrow> string \<Rightarrow> val \<Rightarrow> heap" where
  "set_prop h a k x = h[a := AList.update k x (h ! a)]"

fun put_prop :: "heap \<Rightarrow> val \<Rightarrow> string \<Rightarrow> val \<Rightarrow> thrown + heap" where
  "put_prop h VUndefined k x = Inl TypeError"
| "put_prop h VNull k x = Inl TypeError"
| "put_prop h (VRef a) k x = (if a < length h then Inr (set_prop h a k x) else Inl Dangling)"
| "put_prop h v k x = Inr h"

text \<open>Decimal numerals, for the index properties of strings and arrays.\<close>

definition digit :: "nat \<Rightarrow> char" where
  "digit d = ''0123456789'' ! d"

fun show_nat :: "nat \<Rightarrow> string" where
  "show_nat n = (if n < 10 then [digit n] else show_nat (n div 10) @ [digit (n mod 10)])"

declare show_nat.simps [simp del]

text \<open>
  The own enumerable properties \<^verbatim>\<open>Object.assign\<close> copies from a source:
  none for \<^verbatim>\<open>undefined\<close>, \<^verbatim>\<open>null\<close>, numbers, booleans and functions, the
  characters by index for a string.
\<close>

fun own_props :: "heap \<Rightarrow> val \<Rightarrow> thrown + obj" where
  "own_props h (VRef a) = (if a < length h then Inr (h ! a) else Inl Dangling)"
| "own_props h (VStr s) =
     Inr (zip (map show_nat [0..<length s]) (map (\<lambda>c. VStr [c]) s))"
| "own_props h v = Inr []"

definition assign_props :: "heap \<Rightarrow> nat \<Rightarrow> obj \<Rightarrow> heap" where
  "assign_props h t ps = h[t := fold (\<lambda>(k, x). AList.update k x) ps (h ! t)]"

text \<open>
  \<^verbatim>\<open>Object.assign(target, ...sources)\<close> for a target object: the sources from left
  to right, each property written onto the target.
\<close>

fun Object_assign :: "heap \<Rightarrow> nat \<Rightarrow> val list \<Rightarrow> thrown + heap" where
  "Object_assign h t [] = Inr h"
| "Object_assign h t (s # ss) =
     (case own_props h s of
        Inl e \<Rightarrow> Inl e
      | Inr ps \<Rightarrow> Object_assign (assign_props h t ps) t ss)"

text \<open>A default parameter \<^verbatim>\<open>(x = {})\<close>: a fresh empty object for \<^verbatim>\<open>undefined\<close> only.\<close>

definition default_empty :: "heap \<Rightarrow> val \<Rightarrow> heap \<times> val" where
  "default_empty h v =
     (if v = VUndefined then (let (h', a) = alloc h [] in (h', VRef a)) else (h, v))"

text \<open>\<^verbatim>\<open>(v || {})\<close>: a fresh empty object for a falsy value.\<close>

definition or_empty :: "heap \<Rightarrow> val \<Rightarrow> heap \<times> val" where
  "or_empty h v = (if truthy v then (h, v) else (let (h', a) = alloc h [] in (h', VRef a)))"

text \<open>
  A heap is closed when every reference stored in it points into it, as every heap
  of a running program is.
\<close>

fun valid_val :: "nat \<Rightarrow> val \<Rightarrow> bool" where
  "valid_val n (VRef a) = (a < n)"
| "valid_val n v = True"

definition closed_heap :: "heap \<Rightarrow> bool" where
  "closed_heap h = list_all (list_all (\<lambda>(k, x). valid_val (length h) x)) h"

section \<open>The config composers\<close>

text \<open>
  \<^verbatim>\<open>
  const withAcceptJSON = (baseConfig = {}) => {
      const defaultHeaders = Object.assign({}, { Accept: 'application/json' }, baseConfig.headers);
      return Object.assign({}, baseConfig, { headers:  defaultHeaders});
  };
  \<close>
  The arguments of a call are evaluated from left to right, so the two object literals
  of the first line exist before \<^verbatim>\<open>baseConfig.headers\<close> is read.
\<close>

definition withAcceptJSON :: "heap \<Rightarrow> val \<Rightarrow> thrown + heap \<times> val" where
  "withAcceptJSON h arg =
     (let (h0, baseConfig) = default_empty h arg;
          (h1, target1) = alloc h0 [];
          (h2, accept) = alloc h1 [(''Accept'', VStr ''application/json'')]
      in case get_prop h2 baseConfig ''headers'' of
           Inl e \<Rightarrow> Inl e
         | Inr hs \<Rightarrow>
            (case Object_assign h2 target1 [VRef accept, hs] of
               Inl e \<Rightarrow> Inl e
             | Inr h3 \<Rightarrow>
                (let defaultHeaders = VRef target1;
                     (h4, target2) = alloc h3 [];
                     (h5, lit) = alloc h4 [(''headers'', defaultHeaders)]
                 in case Object_assign h5 target2 [baseConfig, VRef lit] of
                      Inl e \<Rightarrow> Inl e
                    | Inr h6 \<Rightarrow> Inr (h6, VRef target2))))"

text \<open>
  \<^verbatim>\<open>
  const withCancelToken = baseConfig => {
      const cancelToken = { cancelToken: baseConfig.cancelToken || (baseConfig.cancelSource || {}).token };
      return Object.assign({}, baseConfig, cancelToken);
  };
  \<close>
  There is no default parameter here.
\<close>

definition withCancelToken :: "heap \<Rightarrow> val \<Rightarrow> thrown + heap \<times> val" where
  "withCancelToken h baseConfig =
     (case get_prop h baseConfig ''cancelToken'' of
        Inl e \<Rightarrow> Inl e
      | Inr ct \<Rightarrow>
         (case (if truthy ct then Inr (h, ct)
                else (case get_prop h baseConfig ''cancelSource'' of
                        Inl e \<Rightarrow> Inl e
                      | Inr cs \<Rightarrow>
                         (let (h1, src) = or_empty h cs
                          in case get_prop h1 src ''token'' of
                               Inl e \<Rightarrow> Inl e
                             | Inr tok \<Rightarrow> Inr (h1, tok)))) of
            Inl e \<Rightarrow> Inl e
          | Inr (h2, x) \<Rightarrow>
             (let (h3, cancelToken) = alloc h2 [(''cancelToken'', x)];
                  (h4, target) = alloc h3 []
              in case Object_assign h4 target [baseConfig, VRef cancelToken] of
                   Inl e \<Rightarrow> Inl e
                 | Inr h5 \<Rightarrow> Inr (h5, VRef target))))"

text \<open>
  The token \<^verbatim>\<open>withCancelToken\<close> is to set, in the words of the specification: the
  \<^verbatim>\<open>cancelToken\<close> of the base config if it has one, else the \<^verbatim>\<open>token\<close> of its
  \<^verbatim>\<open>cancelSource\<close> if it has one, else \<^verbatim>\<open>undefined\<close>. "Has one" is read as the
  \<^verbatim>\<open>||\<close> of the code reads it: the value is truthy.
\<close>

definition prop_or_undefined :: "heap \<Rightarrow> val \<Rightarrow> string \<Rightarrow> val" where
  "prop_or_undefined h v k = (case get_prop h v k of Inl e \<Rightarrow> VUndefined | Inr x \<Rightarrow> x)"

definition chosen_token :: "heap \<Rightarrow> val \<Rightarrow> val" where
  "chosen_token h c =
     (let ct = prop_or_undefined h c ''cancelToken'';
          cs = prop_or_undefined h c ''cancelSource''
      in if truthy ct then ct
         else if truthy cs then prop_or_undefined h cs ''token''
         else VUndefined)"

section \<open>The verb facades\<close>

text \<open>
  \<^verbatim>\<open>
  const get = (url, config = {}) => caxios.get(url, withCancelToken(config));
  const post = (url, data = {}, config = {}) => caxios.post(url, data, withCancelToken(config));
  const put = (url, data = {}, config = {}) => caxios.put(url, data, withCancelToken(config));
  const patch = (url, data = {}, config = {}) => caxios.patch(url, data, withCancelToken(config));
  const del = (url, data = {}, config = {}) => caxios.delete(url, data, withCancelToken(config));
  const getJSON = (url, config = {}) => get(url, withAcceptJSON(config));
  const postJSON = (url, data = {}, config = {}) => post(url, data, withAcceptJSON(config));
  \<close>
  and likewise \<^verbatim>\<open>putJSON\<close>, \<^verbatim>\<open>patchJSON\<close>, \<^verbatim>\<open>delJSON\<close>. The transport is not
  part of the library: a facade yields the call it hands to the transport, the method
  name with the arguments.
\<close>

datatype transport_call = Call string "val list"

definition get :: "heap \<Rightarrow> val \<Rightarrow> val \<Rightarrow> thrown + heap \<times> transport_call" where
  "get h url arg =
     (let (h0, config) = default_empty h arg
      in case withCancelToken h0 config of
           Inl e \<Rightarrow> Inl e
         | Inr (h1, c) \<Rightarrow> Inr (h1, Call ''get'' [url, c]))"

definition with_data ::
    "string \<Rightarrow> heap \<Rightarrow> val \<Rightarrow> val \<Rightarrow> val \<Rightarrow> thrown + heap \<times> transport_call" where
  "with_data method h url arg1 arg2 =
     (let (h0, data) = default_empty h arg1;
          (h1, config) = default_empty h0 arg2
      in case withCancelToken h1 config of
           Inl e \<Rightarrow> Inl e
         | Inr (h2, c) \<Rightarrow> Inr (h2, Call method [url, data, c]))"




definition del :: "heap \<Rightarrow> val \<Rightarrow> val \<Rightarrow> val \<Rightarrow> thrown + heap \<times> transport_call" where
  "del = with_data ''delete''"

definition getJSON :: "heap \<Rightarrow> val \<Rightarrow> val \<Rightarrow> thrown + heap \<times> transport_call" where
  "getJSON h url arg =
     (let (h0, config) = default_empty h arg
      in case withAcceptJSON h0 config of
           Inl e \<Rightarrow> Inl e
         | Inr (h1, c) \<Rightarrow> get h1 url c)"






section \<open>Initialisation\<close>

text \<open>
  Modelled from the spec: the registration point of the transport (section 6, (c): "a
  response-interceptor registration point accepting a (fulfilled-handler,
  rejected-handler) pair"), which is code of the transport and not of this
  repository. The manager keeps its pairs in the array \<^verbatim>\<open>handlers\<close>; \<open>use\<close>
  appends a new pair object to it.
\<close>

definition use :: "heap \<Rightarrow> val \<Rightarrow> val \<Rightarrow> val \<Rightarrow> thrown + heap" where
  "use h manager fulfilled rejected =
     (case get_prop h manager ''handlers'' of
        Inl e \<Rightarrow> Inl e
      | Inr hs \<Rightarrow>
         (case hs of
            VRef arr \<Rightarrow>
              if arr < length h
              then (let (h1, handler) =
                          alloc h [(''fulfilled'', fulfilled), (''rejected'', rejected)]
                    in Inr (set_prop h1 arr (show_nat (length (h ! arr))) (VRef handler)))
              else Inl Dangling
          | _ \<Rightarrow> Inl TypeError))"

text \<open>
  \<^verbatim>\<open>
  const caxios = axios.create();

  (function setCaxiosDefaults() {
      caxios.defaults.timeout = 1000 * 3;
      ['post', 'put', 'patch'].forEach(m => caxios.defaults.headers[m]['Content-Type'] = 'application/json');
      caxios.interceptors.response.use(fulfilledResponseInterceptor, rejectedResponseInterceptor);
  })();
  \<close>
  The two instances \<^verbatim>\<open>axios\<close> and \<^verbatim>\<open>caxios\<close> are constants of the module and
  arguments here. \<open>forEach_method\<close> is the \<^verbatim>\<open>forEach\<close> with its arrow function.
\<close>

fun forEach_method :: "heap \<Rightarrow> val \<Rightarrow> string list \<Rightarrow> thrown + heap" where
  "forEach_method h inst [] = Inr h"
| "forEach_method h inst (m # ms) =
     (case get_path h inst [''defaults'', ''headers'', m] of
        Inl e \<Rightarrow> Inl e
      | Inr hm \<Rightarrow>
         (case put_prop h hm ''Content-Type'' (VStr ''application/json'') of
            Inl e \<Rightarrow> Inl e
          | Inr h' \<Rightarrow> forEach_method h' inst ms))"

definition setCaxiosDefaults :: "heap \<Rightarrow> val \<Rightarrow> val \<Rightarrow> thrown + heap" where
  "setCaxiosDefaults h axios caxios =
     (case get_prop h caxios ''defaults'' of
        Inl e \<Rightarrow> Inl e
      | Inr d \<Rightarrow>
         (case put_prop h d ''timeout'' (VNum (1000 * 3)) of
            Inl e \<Rightarrow> Inl e
          | Inr h1 \<Rightarrow>
             (case forEach_method h1 caxios [''post'', ''put'', ''patch''] of
                Inl e \<Rightarrow> Inl e
              | Inr h2 \<Rightarrow>
                 (case get_path h2 caxios [''interceptors'', ''response''] of
                    Inl e \<Rightarrow> Inl e
                  | Inr manager \<Rightarrow>
                      use h2 manager (VFun ''fulfilledResponseInterceptor'')
                        (VFun ''rejectedResponseInterceptor'')))))"

text \<open>
  \<^verbatim>\<open>axios.create()\<close> is code of the transport, not of this repository. In the
  releases of the transport the library was written against it is
  \<^verbatim>\<open>createInstance(utils.merge(defaults, instanceConfig))\<close>: \<^verbatim>\<open>merge\<close> copies
  the properties of the shared \<^verbatim>\<open>defaults\<close> into a new object, one level deep, so
  the new \<^verbatim>\<open>defaults\<close> has a timeout of its own but refers to the same
  \<^verbatim>\<open>headers\<close> object; the new instance gets interceptor managers of its own.
  Here \<^verbatim>\<open>instanceConfig\<close> is \<^verbatim>\<open>undefined\<close> and adds nothing.
\<close>

definition create :: "heap \<Rightarrow> val \<Rightarrow> thrown + heap \<times> val" where
  "create h axios =
     (case get_prop h axios ''defaults'' of
        Inl e \<Rightarrow> Inl e
      | Inr defaults \<Rightarrow>
         (let (h1, result) = alloc h []
          in case Object_assign h1 result [defaults] of
               Inl e \<Rightarrow> Inl e
             | Inr h2 \<Rightarrow>
                (let (h3, handlers1) = alloc h2 [];
                     (h4, request) = alloc h3 [(''handlers'', VRef handlers1)];
                     (h5, handlers2) = alloc h4 [];
                     (h6, response) = alloc h5 [(''handlers'', VRef handlers2)];
                     (h7, interceptors) =
                        alloc h6 [(''request'', VRef request), (''response'', VRef response)];
                     (h8, instance) =
                        alloc h7 [(''defaults'', VRef result),
                                  (''interceptors'', VRef interceptors)]
                 in Inr (h8, VRef instance))))"

text \<open>
  What loading the module does: \<^verbatim>\<open>const caxios = axios.create();\<close> and then the
  call of \<^verbatim>\<open>setCaxiosDefaults\<close>. The result is the heap with \<^verbatim>\<open>caxios\<close>.
\<close>

definition module_init :: "heap \<Rightarrow> val \<Rightarrow> thrown + heap \<times> val" where
  "module_init h axios =
     (case create h axios of
        Inl e \<Rightarrow> Inl e
      | Inr (h1, caxios) \<Rightarrow>
         (case setCaxiosDefaults h1 axios caxios of
            Inl e \<Rightarrow> Inl e
          | Inr h2 \<Rightarrow> Inr (h2, caxios)))"

text \<open>
  The earlier revision of the module (\<^verbatim>\<open>src/index.js\<close>) has no instance of its own
  and writes the same three settings through \<^verbatim>\<open>axios\<close>:
  \<^verbatim>\<open>
  (function setGlobalDefaults() {
      axios.defaults.timeout = 1000 * 3;
      ['post', 'put', 'patch'].forEach(m => axios.defaults.headers[m]['Content-Type'] = 'application/json');
      axios.interceptors.response.use(fulfilledResponseInterceptor, rejectedResponseInterceptor);
  })();
  \<close>
\<close>

definition setGlobalDefaults :: "heap \<Rightarrow> val \<Rightarrow> thrown + heap" where
  "setGlobalDefaults h axios =
     (case get_prop h axios ''defaults'' of
        Inl e \<Rightarrow> Inl e
      | Inr d \<Rightarrow>
         (case put_prop h d ''timeout'' (VNum (1000 * 3)) of
            Inl e \<Rightarrow> Inl e
          | Inr h1 \<Rightarrow>
             (case forEach_method h1 axios [''post'', ''put'', ''patch''] of
                Inl e \<Rightarrow> Inl e
              | Inr h2 \<Rightarrow>
                 (case get_path h2 axios [''interceptors'', ''response''] of
                    Inl e \<Rightarrow> Inl e
                  | Inr manager \<Rightarrow>
                      use h2 manager (VFun ''fulfilledResponseInterceptor'')
                        (VFun ''rejectedResponseInterceptor'')))))"

text \<open>
  The objects initialisation writes through an instance: its \<^verbatim>\<open>defaults\<close>, the
  header objects of the three methods, and the handler array of its response
  interceptors. \<open>None\<close> when the instance lacks one of them.
\<close>

definition ref_at :: "heap \<Rightarrow> val \<Rightarrow> string list \<Rightarrow> nat option" where
  "ref_at h v ks =
     (case get_path h v ks of
        Inl e \<Rightarrow> None
      | Inr w \<Rightarrow> (case w of VRef a \<Rightarrow> if a < length h then Some a else None | _ \<Rightarrow> None))"

definition written_objects :: "heap \<Rightarrow> val \<Rightarrow> nat list option" where
  "written_objects h inst =
     do {
       d \<leftarrow> ref_at h inst [''defaults''];
       p1 \<leftarrow> ref_at h inst [''defaults'', ''headers'', ''post''];
       p2 \<leftarrow> ref_at h inst [''defaults'', ''headers'', ''put''];
       p3 \<leftarrow> ref_at h inst [''defaults'', ''headers'', ''patch''];
       arr \<leftarrow> ref_at h inst [''interceptors'', ''response'', ''handlers''];
       Some [d, p1, p2, p3, arr]
     }"

text \<open>
  A region is a list of addresses that is closed under the references its objects
  hold: everything reachable from an object of the region lies in the region.
\<close>

fun in_region :: "nat list \<Rightarrow> val \<Rightarrow> bool" where
  "in_region G (VRef a) = (a \<in> set G)"
| "in_region G v = True"

definition closed_region :: "heap \<Rightarrow> nat list \<Rightarrow> bool" where
  "closed_region h G =
     list_all (\<lambda>a. a < length h \<and> list_all (\<lambda>(k, x). in_region G x) (h ! a)) G"

section \<open>Example inputs\<close>

text \<open>
  The failure a hook result carries, when it raised one.
\<close>

definition raised :: "thrown + response \<Rightarrow> js_error option" where
  "raised res = (case res of Inl t \<Rightarrow> (case t of Thrown e \<Rightarrow> Some e | _ \<Rightarrow> None) | Inr r \<Rightarrow> None)"

text \<open>A cancellation predicate for a run in which nothing was cancelled.\<close>

definition no_cancellation :: "js_error \<Rightarrow> bool" where
  "no_cancellation ex = False"

text \<open>
  An instance of \<open>JSON_parse\<close> for the examples. It agrees with \<^verbatim>\<open>JSON.parse\<close> on
  the two bodies used below: \<^verbatim>\<open><html></html>\<close> is rejected, \<^verbatim>\<open>{}\<close> parses.
\<close>

definition example_JSON_parse :: "val \<Rightarrow> string option" where
  "example_JSON_parse v =
     (if v = VStr ''{}'' then None else Some ''Unexpected token < in JSON at position 0'')"

definition json_config :: request_config where
  "json_config = \<lparr>headers = [''Accept'' \<mapsto> ''application/json''],
                   cancelToken = VUndefined, cancelSource = VUndefined\<rparr>"

definition config_without_accept :: request_config where
  "config_without_accept = \<lparr>headers = Map.empty,
                             cancelToken = VUndefined, cancelSource = VUndefined\<rparr>"

text \<open>Status 200 with an HTML body, for a request that accepts JSON only.\<close>

definition html_response :: response where
  "html_response = \<lparr>status = 200, statusText = ''OK'',
                     response_headers = [''Content-Type'' \<mapsto> ''text/html''],
                     config = json_config, request = VNull,
                     data = VStr ''<html></html>''\<rparr>"

text \<open>Status 200 with the body \<^verbatim>\<open>{}\<close> left unparsed by the transport.\<close>

definition unparsed_json_response :: response where
  "unparsed_json_response = html_response\<lparr>data := VStr ''{}''\<rparr>"

text \<open>Status 200 for a request whose configuration has no \<^verbatim>\<open>Accept\<close> header.\<close>

definition response_without_accept :: response where
  "response_without_accept = html_response\<lparr>config := config_without_accept\<rparr>"

text \<open>A transport error with a response of the given status and a parsed body.\<close>

definition http_failure :: "int \<Rightarrow> js_error" where
  "http_failure code =
     \<lparr>instanceof_SyntaxError = False,
      ex_message = ''Request failed'',
      ex_response = Some (html_response\<lparr>status := code, data := VRef 0\<rparr>),
      ex_config = Some json_config,
      isFormat = None, isCancel = None, isNetwork = None, isValidation = None\<rparr>"

text \<open>
  A parsing error with a response of status 422 attached: what the fulfilled-response
  hook hands over when the transport is configured to treat 422 as a success
  (\<^verbatim>\<open>validateStatus\<close>) and the body is not JSON.
\<close>

definition malformed_422 :: js_error where
  "malformed_422 =
     (syntax_error ''Unexpected token < in JSON at position 0'')
       \<lparr>ex_response := Some (html_response\<lparr>status := 422\<rparr>),
        ex_config := Some json_config\<rparr>"

text \<open>
  A caller's config object at address 0 whose headers object, at address 1, names its
  own \<^verbatim>\<open>Accept\<close>, and whose cancel source, at address 2, holds the token at
  address 3.
\<close>

definition caller_heap :: heap where
  "caller_heap = [[(''headers'', VRef 1), (''timeout'', VNum 5), (''cancelSource'', VRef 2)],
                  [(''Accept'', VStr ''text/html''), (''X-Trace'', VStr ''on'')],
                  [(''token'', VRef 3)],
                  []]"

text \<open>What a property path reads from the object a function returned.\<close>

definition read_result :: "thrown + heap \<times> val \<Rightarrow> string list \<Rightarrow> thrown + val" where
  "read_result res ks = (case res of Inl e \<Rightarrow> Inl e | Inr (h, v) \<Rightarrow> get_path h v ks)"

text \<open>
  The objects of one transport instance laid out from address \<open>n\<close>: the instance,
  its \<^verbatim>\<open>defaults\<close> with timeout 0, the header objects of the three methods with the
  transport's own content type, and the two interceptor managers with empty handler
  arrays. \<open>wired 0\<close> is a heap that holds the shared instance alone, at address 0.
\<close>

definition wired :: "nat \<Rightarrow> heap" where
  "wired n =
     [[(''defaults'', VRef (n + 1)), (''interceptors'', VRef (n + 6))],
      [(''timeout'', VNum 0), (''headers'', VRef (n + 2))],
      [(''post'', VRef (n + 3)), (''put'', VRef (n + 4)), (''patch'', VRef (n + 5))],
      [(''Content-Type'', VStr ''application/x-www-form-urlencoded'')],
      [(''Content-Type'', VStr ''application/x-www-form-urlencoded'')],
      [(''Content-Type'', VStr ''application/x-www-form-urlencoded'')],
      [(''request'', VRef (n + 7)), (''response'', VRef (n + 8))],
      [(''handlers'', VRef (n + 9))],
      [(''handlers'', VRef (n + 10))],
      [],
      []]"

section \<open>Properties of the rejected-response hook\<close>

lemma rejected_always_throws:
  "\<exists>e. rejectedResponseInterceptor isc ex = Inl (Thrown e)"
  by (simp add: rejectedResponseInterceptor_def Let_def)

text \<open>
  Claim C3. The rejected-response hook classifies a failure by the first rule that
  matches, in the order parsing error, cancellation, no response, status 422,
  unclassified: the object it raises answers the four queries exactly as that first
  matching rule prescribes.
\<close>

theorem C3_first_match_wins:
  "\<exists>e. rejectedResponseInterceptor isc ex = Inl (Thrown e)
       \<and> answers e = answers_of (first_matching_rule isc ex)"
  by (cases "ex_response ex")
     (simp_all add: rejectedResponseInterceptor_def first_matching_rule_def
        answers_def cleared_def Let_def)

text \<open>
  Claim C2, as stated, fails: for a transport error whose response has status 500,
  and no cancellation, the hook raises a failure on which none of the four queries
  answers true.
\<close>

theorem C2_none_true:
  "map_option true_count
     (raised (rejectedResponseInterceptor no_cancellation (http_failure 500))) = Some 0"
  by (simp add: rejectedResponseInterceptor_def raised_def no_cancellation_def http_failure_def
        cleared_def true_count_def answers_def html_response_def Let_def)

text \<open>
  Claim C2, amended. On every failure the hook raises, at most one of the four queries
  answers true; none does exactly when the failure is no parsing error, is not
  recognised as a cancellation, and carries a response whose status is not 422.
  In every other case exactly one answers true.
\<close>

theorem C2_at_most_one:
  "\<exists>e. rejectedResponseInterceptor isc ex = Inl (Thrown e)
       \<and> true_count e \<le> 1
       \<and> (true_count e = 0 \<longleftrightarrow>
            \<not> instanceof_SyntaxError ex \<and> \<not> isc (cleared ex)
            \<and> (\<exists>r. ex_response ex = Some r \<and> status r \<noteq> 422))"
  by (cases "ex_response ex")
     (simp_all add: rejectedResponseInterceptor_def true_count_def answers_def cleared_def Let_def)

text \<open>
  Claim C7, as stated, fails: a parsing error that carries a response of status 422
  is classified as a format failure, the first rule of the priority list, and its
  validation query answers false.
\<close>

theorem C7_parse_failure_with_422:
  "map_option answers (raised (rejectedResponseInterceptor no_cancellation malformed_422))
     = Some [Some True, Some False, Some False, Some False]
   \<and> map_option status (ex_response malformed_422) = Some 422"
  by (simp add: rejectedResponseInterceptor_def raised_def malformed_422_def syntax_error_def
        cleared_def answers_def html_response_def Let_def)

text \<open>
  Claim C7, amended. For every failure that is no parsing error, is not recognised as
  a cancellation, and carries a response whose status is 422, the hook raises the
  same object with the validation query answering true and the other three false;
  the object still carries the response, so its \<^verbatim>\<open>response.data\<close> is the body the
  server sent.
\<close>

theorem C7_validation:
  assumes "\<not> instanceof_SyntaxError ex" and "\<not> isc (cleared ex)"
      and "ex_response ex = Some r" and "status r = 422"
  shows "rejectedResponseInterceptor isc ex
           = Inl (Thrown ((cleared ex)\<lparr>isValidation := Some True\<rparr>))
         \<and> answers ((cleared ex)\<lparr>isValidation := Some True\<rparr>)
             = [Some False, Some False, Some False, Some True]
         \<and> ex_response ((cleared ex)\<lparr>isValidation := Some True\<rparr>) = Some r"
  using assms
  by (simp add: rejectedResponseInterceptor_def cleared_def answers_def Let_def)

text \<open>The amended claim C7 at a transport error with status 422 and a parsed body.\<close>

theorem C7_witness:
  "rejectedResponseInterceptor no_cancellation (http_failure 422)
     = Inl (Thrown ((cleared (http_failure 422))\<lparr>isValidation := Some True\<rparr>))
   \<and> answers ((cleared (http_failure 422))\<lparr>isValidation := Some True\<rparr>)
       = [Some False, Some False, Some False, Some True]
   \<and> map_option data (ex_response ((cleared (http_failure 422))\<lparr>isValidation := Some True\<rparr>))
       = Some (VRef 0)"
proof -
  have a: "\<not> instanceof_SyntaxError (http_failure 422)"
    by (simp add: http_failure_def)
  have b: "\<not> no_cancellation (cleared (http_failure 422))"
    by (simp add: no_cancellation_def)
  have c: "ex_response (http_failure 422) = Some (html_response\<lparr>status := 422, data := VRef 0\<rparr>)"
    by (simp add: http_failure_def)
  have d: "status (html_response\<lparr>status := 422, data := VRef 0\<rparr>) = 422"
    by simp
  show ?thesis
    using C7_validation [of "http_failure 422" no_cancellation
            "html_response\<lparr>status := 422, data := VRef 0\<rparr>"] a b c d
    by simp
qed

section \<open>Properties of the fulfilled-response hook\<close>

lemma indexOf_json_self [simp]: "indexOf ''application/json'' ''application/json'' = 0"
  by (simp add: indexOf_def)

lemma indexOf_json_comma [simp]: "indexOf ''application/json'' '','' = - 1"
  by (simp add: indexOf_def)

text \<open>Without an \<^verbatim>\<open>Accept\<close> header the hook raises a \<^verbatim>\<open>TypeError\<close>, whatever the body.\<close>

lemma fulfilled_absent_accept:
  "headers (config r) ''Accept'' = None \<Longrightarrow>
   fulfilledResponseInterceptor JSON_parse isc r = Inl TypeError"
  by (simp add: fulfilledResponseInterceptor_def)

text \<open>
  With an \<^verbatim>\<open>Accept\<close> header that does not contain \<^verbatim>\<open>application/json\<close>, or that
  has a comma after its first character, the response passes through.
\<close>

lemma fulfilled_passes_other_accept:
  "headers (config r) ''Accept'' = Some a \<Longrightarrow>
   indexOf a ''application/json'' < 0 \<or> 0 < indexOf a '','' \<Longrightarrow>
   fulfilledResponseInterceptor JSON_parse isc r = Inr r"
  by (auto simp add: fulfilledResponseInterceptor_def)

text \<open>
  Claim C4 fails on the code where the \<^verbatim>\<open>Accept\<close> header is absent: for a response
  of status 200 whose configuration has no \<^verbatim>\<open>Accept\<close> header the hook does not
  return the response, it raises a \<^verbatim>\<open>TypeError\<close>.
\<close>

theorem C4_absent_accept_raises:
  "fulfilledResponseInterceptor example_JSON_parse no_cancellation response_without_accept
     = Inl TypeError"
  by (simp add: fulfilledResponseInterceptor_def response_without_accept_def
        config_without_accept_def)

text \<open>
  The failure raised when JSON alone was asked for, the body is no object and
  \<^verbatim>\<open>JSON.parse\<close> rejects it.
\<close>

lemma fulfilled_parse_failure:
  assumes "headers (config r) ''Accept'' = Some a"
      and "0 \<le> indexOf a ''application/json''" and "indexOf a '','' \<le> 0"
      and "typeof (data r) \<noteq> ''object''"
      and "JSON_parse (data r) = Some m"
  shows "fulfilledResponseInterceptor JSON_parse isc r =
           Inl (Thrown \<lparr>instanceof_SyntaxError = True, ex_message = m, ex_response = Some r,
                  ex_config = Some (config r), isFormat = Some True, isCancel = Some False,
                  isNetwork = Some False, isValidation = Some False\<rparr>)"
  using assms
  by (simp add: fulfilledResponseInterceptor_def rejectedResponseInterceptor_def
        syntax_error_def cleared_def Let_def)

text \<open>
  Claim C5. For every response whose \<^verbatim>\<open>Accept\<close> header is exactly
  \<^verbatim>\<open>application/json\<close>, whose body is a string, and whose body \<^verbatim>\<open>JSON.parse\<close>
  rejects, the hook does not return: it raises a failure whose format query answers
  true and whose cancel, network and validation queries answer false.
\<close>

theorem C5_invalid_json_is_format_failure:
  assumes "headers (config r) ''Accept'' = Some ''application/json''"
      and "data r = VStr s"
      and "JSON_parse (VStr s) = Some m"
  shows "\<exists>e. fulfilledResponseInterceptor JSON_parse isc r = Inl (Thrown e)
             \<and> isFormat e = Some True \<and> isCancel e = Some False
             \<and> isNetwork e = Some False \<and> isValidation e = Some False
             \<and> ex_response e = Some r"
  using assms fulfilled_parse_failure [of r "''application/json''" JSON_parse m isc]
  by simp

text \<open>Claim C5 at the response of status 200 with an HTML body.\<close>

theorem C5_witness:
  "\<exists>e. fulfilledResponseInterceptor example_JSON_parse no_cancellation html_response
          = Inl (Thrown e)
       \<and> isFormat e = Some True \<and> isCancel e = Some False
       \<and> isNetwork e = Some False \<and> isValidation e = Some False
       \<and> ex_response e = Some html_response"
  using C5_invalid_json_is_format_failure
          [of html_response "''<html></html>''" example_JSON_parse
              "''Unexpected token < in JSON at position 0''" no_cancellation]
  by (simp add: html_response_def json_config_def example_JSON_parse_def)

text \<open>
  Claim C6. For every response whose \<^verbatim>\<open>Accept\<close> header is exactly
  \<^verbatim>\<open>application/json\<close> and whose body is either an object already or a string
  that \<^verbatim>\<open>JSON.parse\<close> accepts, the hook returns the very response it was given.
\<close>

theorem C6_json_passes_through:
  assumes "headers (config r) ''Accept'' = Some ''application/json''"
      and "typeof (data r) = ''object''
           \<or> (\<exists>s. data r = VStr s \<and> JSON_parse (VStr s) = None)"
  shows "fulfilledResponseInterceptor JSON_parse isc r = Inr r"
  using assms by (auto simp add: fulfilledResponseInterceptor_def)

text \<open>Claim C6 at an unparsed body \<^verbatim>\<open>{}\<close> and at a body that is an object.\<close>

theorem C6_witness:
  "fulfilledResponseInterceptor example_JSON_parse no_cancellation unparsed_json_response
     = Inr unparsed_json_response
   \<and> fulfilledResponseInterceptor example_JSON_parse no_cancellation
         (html_response\<lparr>data := VRef 0\<rparr>)
     = Inr (html_response\<lparr>data := VRef 0\<rparr>)"
proof -
  have a: "headers (config unparsed_json_response) ''Accept'' = Some ''application/json''"
    by (simp add: unparsed_json_response_def html_response_def json_config_def)
  have b: "data unparsed_json_response = VStr ''{}'' \<and> example_JSON_parse (VStr ''{}'') = None"
    by (simp add: unparsed_json_response_def example_JSON_parse_def)
  have c: "headers (config (html_response\<lparr>data := VRef 0\<rparr>)) ''Accept''
             = Some ''application/json''"
    by (simp add: html_response_def json_config_def)
  have d: "typeof (data (html_response\<lparr>data := VRef 0\<rparr>)) = ''object''"
    by simp
  show ?thesis
    using C6_json_passes_through [of unparsed_json_response example_JSON_parse no_cancellation]
          C6_json_passes_through [of "html_response\<lparr>data := VRef 0\<rparr>" example_JSON_parse
             no_cancellation] a b c d
    by blast
qed

section \<open>Properties of the heap operations\<close>

lemma assign_props_length [simp]: "length (assign_props h t ps) = length h"
  by (simp add: assign_props_def)

lemma assign_props_other [simp]: "b \<noteq> t \<Longrightarrow> assign_props h t ps ! b = h ! b"
  by (simp add: assign_props_def)

lemma fold_update_map_of:
  "map_of (fold (\<lambda>(k, x). AList.update k x) ps ob) = map_of ob ++ map_of (rev ps)"
proof (induction ps arbitrary: ob)
  case Nil
  then show ?case by simp
next
  case (Cons p ps)
  obtain k x where p: "p = (k, x)" by (cases p)
  have "map_of (fold (\<lambda>(k, x). AList.update k x) (p # ps) ob)
          = map_of (AList.update k x ob) ++ map_of (rev ps)"
    using Cons.IH [of "AList.update k x ob"] p by simp
  then show ?case
    using p by (auto simp add: fun_eq_iff map_add_def AList.update_conv' split: option.splits)
qed

lemma assign_props_target:
  "t < length h \<Longrightarrow>
   map_of (assign_props h t ps ! t) = map_of (h ! t) ++ map_of (rev ps)"
  by (simp add: assign_props_def fold_update_map_of)

lemma map_of_rev_distinct: "distinct (map fst ps) \<Longrightarrow> map_of (rev ps) = map_of ps"
proof (induction ps)
  case Nil
  then show ?case by simp
next
  case (Cons p ps)
  obtain k x where p: "p = (k, x)" by (cases p)
  with Cons have "k \<notin> dom (map_of ps)" by (simp add: dom_map_of_conv_image_fst)
  with Cons p show ?case
    by (auto simp add: fun_eq_iff map_add_def split: option.splits)
qed

lemma own_props_stable:
  assumes "own_props h v = Inr ps" and "length h \<le> length h'"
      and "\<forall>b<length h. h' ! b = h ! b"
  shows "own_props h' v = Inr ps"
  using assms by (cases v) (auto split: if_splits)

section \<open>Properties of the config composers\<close>

lemma closed_heap_get_prop:
  assumes "closed_heap h" and "a < length h" and "get_prop h (VRef a) k = Inr v"
  shows "valid_val (length h) v"
proof (cases "map_of (h ! a) k")
  case None
  with assms show ?thesis by auto
next
  case (Some w)
  then have "(k, w) \<in> set (h ! a)" by (rule map_of_SomeD)
  moreover have "h ! a \<in> set h" using assms(2) by simp
  ultimately have "valid_val (length h) w"
    using assms(1) by (auto simp add: closed_heap_def list_all_iff)
  with Some assms show ?thesis by auto
qed

lemma get_prop_append [simp]:
  "a < length h \<Longrightarrow> get_prop (h @ new) (VRef a) k = get_prop h (VRef a) k"
  by (simp add: nth_append)

lemma get_prop_valid_returns:
  "valid_val (length h) v \<Longrightarrow> truthy v \<Longrightarrow> \<exists>w. get_prop h v k = Inr w"
  by (cases v) simp_all

lemma copied_fields:
  assumes "distinct (map fst ob)" and "k \<noteq> k'"
  shows "(map_of [] ++ map_of (rev ob) ++ map_of (rev [(k', x)])) k = map_of ob k"
  using assms by (simp add: map_of_rev_distinct map_add_def)

lemma withAcceptJSON_result:
  assumes a: "a < length h"
      and da: "distinct (map fst (h ! a))"
      and hs: "get_prop h (VRef a) ''headers'' = Inr hs"
      and ps: "own_props h hs = Inr ps"
      and dist: "distinct (map fst ps)"
  shows "\<exists>h' r t. withAcceptJSON h (VRef a) = Inr (h', VRef r)
           \<and> length h \<le> r \<and> r < length h' \<and> take (length h) h' = h
           \<and> (\<forall>k. k \<noteq> ''headers'' \<longrightarrow> get_prop h' (VRef r) k = get_prop h (VRef a) k)
           \<and> get_prop h' (VRef r) ''headers'' = Inr (VRef t)
           \<and> length h \<le> t \<and> t < length h'
           \<and> (\<forall>k. get_prop h' (VRef t) k =
                 Inr (case map_of ps k of
                        Some v \<Rightarrow> v
                      | None \<Rightarrow> if k = ''Accept'' then VStr ''application/json''
                                else VUndefined))"
proof -
  let ?n = "length h"
  let ?acc = "[(''Accept'', VStr ''application/json'')]"
  let ?h2 = "h @ [[], ?acc]"
  let ?hA = "assign_props ?h2 ?n ?acc"
  let ?h3 = "assign_props ?hA ?n ps"
  let ?lit = "[(''headers'', VRef ?n)]"
  let ?h5 = "?h3 @ [[], ?lit]"
  let ?r = "Suc (Suc ?n)"
  let ?hB = "assign_props ?h5 ?r (h ! a)"
  let ?h6 = "assign_props ?hB ?r ?lit"
  have hs2: "get_prop ?h2 (VRef a) ''headers'' = Inr hs"
    using hs a by (simp add: nth_append)
  have pA: "own_props ?hA hs = Inr ps"
    by (rule own_props_stable [OF ps]) (simp_all add: nth_append)
  have oa1: "Object_assign ?h2 ?n [VRef (Suc ?n), hs] = Inr ?h3"
    using pA by (simp add: nth_append)
  have cell_a: "?h5 ! a = h ! a"
    using a by (simp add: nth_append)
  have oa2: "Object_assign ?h5 ?r [VRef a, VRef (Suc ?r)] = Inr ?h6"
    using a cell_a by (simp add: nth_append)
  have run: "withAcceptJSON h (VRef a) = Inr (?h6, VRef ?r)"
    unfolding withAcceptJSON_def
    by (simp add: hs2 oa1 oa2 default_empty_def alloc_def Let_def
          del: Object_assign.simps get_prop.simps)
  have len: "length ?h6 = ?n + 4"
    by simp
  have old: "take ?n ?h6 = h"
    by (intro nth_equalityI) (simp_all add: nth_append)
  have new: "map_of (?h6 ! ?r) = map_of [] ++ map_of (rev (h ! a)) ++ map_of (rev ?lit)"
    by (simp add: assign_props_target nth_append)
  have copy: "get_prop ?h6 (VRef ?r) k = get_prop h (VRef a) k" if "k \<noteq> ''headers''" for k
  proof -
    have "map_of (?h6 ! ?r) k = map_of (h ! a) k"
      unfolding new using copied_fields [OF da that] .
    then show ?thesis using a by simp
  qed
  have "map_of (?h6 ! ?r) ''headers'' = Some (VRef ?n)"
    unfolding new by simp
  then have hd: "get_prop ?h6 (VRef ?r) ''headers'' = Inr (VRef ?n)"
    by simp
  have e: "?h6 ! ?n = ?h3 ! ?n"
    by (simp add: nth_append)
  have m: "map_of (?h3 ! ?n) = map_of ?acc ++ map_of ps"
    using dist by (simp add: assign_props_target nth_append map_of_rev_distinct)
  have "map_of (?h6 ! ?n) k =
      (case map_of ps k of Some v \<Rightarrow> Some v
       | None \<Rightarrow> if k = ''Accept'' then Some (VStr ''application/json'') else None)" for k
    unfolding e m by (auto simp add: map_add_def split: option.splits)
  then have hdrs: "get_prop ?h6 (VRef ?n) k =
      Inr (case map_of ps k of Some v \<Rightarrow> v
           | None \<Rightarrow> if k = ''Accept'' then VStr ''application/json'' else VUndefined)" for k
    by (simp split: option.splits)
  show ?thesis
    using run old copy hd hdrs len
    by (intro exI [of _ ?h6] exI [of _ ?r] exI [of _ ?n]) (simp del: get_prop.simps)
qed

lemma token_chosen:
  assumes "closed_heap h" and "a < length h"
      and "get_prop h (VRef a) ''cancelToken'' = Inr ct"
  shows "\<exists>h2. (if truthy ct then Inr (h, ct)
               else (case get_prop h (VRef a) ''cancelSource'' of
                       Inl e \<Rightarrow> Inl e
                     | Inr cs \<Rightarrow>
                        (let (h1, src) = or_empty h cs
                         in case get_prop h1 src ''token'' of
                              Inl e \<Rightarrow> Inl e
                            | Inr tok \<Rightarrow> Inr (h1, tok))))
                = Inr (h2, chosen_token h (VRef a))
             \<and> (h2 = h \<or> h2 = h @ [[]])"
proof (cases "truthy ct")
  case True
  then show ?thesis
    using assms(3) by (simp add: chosen_token_def prop_or_undefined_def Let_def)
next
  case False
  obtain cs where cs: "get_prop h (VRef a) ''cancelSource'' = Inr cs"
    using assms(2) by simp
  have v: "valid_val (length h) cs"
    using closed_heap_get_prop [OF assms(1,2) cs] .
  show ?thesis
  proof (cases "truthy cs")
    case True
    obtain w where "get_prop h cs ''token'' = Inr w"
      using get_prop_valid_returns [OF v True] by blast
    with False True cs assms(3) show ?thesis
      by (simp add: or_empty_def chosen_token_def prop_or_undefined_def Let_def
            del: get_prop.simps)
  next
    case F: False
    have fresh: "get_prop (h @ [[]]) (VRef (length h)) ''token'' = Inr VUndefined"
      by simp
    with F False cs assms(3) show ?thesis
      by (simp add: or_empty_def alloc_def chosen_token_def prop_or_undefined_def Let_def
            del: get_prop.simps)
  qed
qed

lemma withCancelToken_result:
  assumes c: "closed_heap h" and a: "a < length h" and da: "distinct (map fst (h ! a))"
  shows "\<exists>h' r. withCancelToken h (VRef a) = Inr (h', VRef r)
           \<and> length h \<le> r \<and> r < length h' \<and> take (length h) h' = h
           \<and> (\<forall>k. k \<noteq> ''cancelToken'' \<longrightarrow> get_prop h' (VRef r) k = get_prop h (VRef a) k)
           \<and> get_prop h' (VRef r) ''cancelToken'' = Inr (chosen_token h (VRef a))"
proof -
  let ?x = "chosen_token h (VRef a)"
  obtain ct where ct: "get_prop h (VRef a) ''cancelToken'' = Inr ct"
    using a by simp
  from token_chosen [OF c a ct] obtain h2 where
    tv: "(if truthy ct then Inr (h, ct)
          else (case get_prop h (VRef a) ''cancelSource'' of
                  Inl e \<Rightarrow> Inl e
                | Inr cs \<Rightarrow>
                   (let (h1, src) = or_empty h cs
                    in case get_prop h1 src ''token'' of
                         Inl e \<Rightarrow> Inl e
                       | Inr tok \<Rightarrow> Inr (h1, tok)))) = Inr (h2, ?x)"
    and h2: "h2 = h \<or> h2 = h @ [[]]"
    by blast
  have l2: "length h \<le> length h2" "take (length h) h2 = h" "h2 ! a = h ! a"
    using h2 a by (auto simp add: nth_append)
  let ?lit = "[(''cancelToken'', ?x)]"
  let ?h4 = "h2 @ [?lit, []]"
  let ?r = "Suc (length h2)"
  let ?h5 = "assign_props (assign_props ?h4 ?r (h ! a)) ?r ?lit"
  have oa: "Object_assign ?h4 ?r [VRef a, VRef (length h2)] = Inr ?h5"
    using a l2 by (simp add: nth_append)
  have run: "withCancelToken h (VRef a) = Inr (?h5, VRef ?r)"
    unfolding withCancelToken_def
    by (simp add: ct tv oa alloc_def Let_def del: Object_assign.simps get_prop.simps)
  have len: "length ?h5 = length h2 + 2"
    by simp
  have "take (length h) ?h5 = take (length h) h2"
    using l2(1) by (intro nth_equalityI) (simp_all add: nth_append)
  then have old: "take (length h) ?h5 = h"
    using l2(2) by simp
  have new: "map_of (?h5 ! ?r) = map_of [] ++ map_of (rev (h ! a)) ++ map_of (rev ?lit)"
    by (simp add: assign_props_target nth_append)
  have copy: "get_prop ?h5 (VRef ?r) k = get_prop h (VRef a) k" if "k \<noteq> ''cancelToken''" for k
  proof -
    have "map_of (?h5 ! ?r) k = map_of (h ! a) k"
      unfolding new using copied_fields [OF da that] .
    then show ?thesis using a by simp
  qed
  have "map_of (?h5 ! ?r) ''cancelToken'' = Some ?x"
    unfolding new by simp
  then have tok: "get_prop ?h5 (VRef ?r) ''cancelToken'' = Inr ?x"
    by simp
  show ?thesis
    using run old copy tok len l2(1)
    by (intro exI [of _ ?h5] exI [of _ ?r]) (simp del: get_prop.simps)
qed

text \<open>
  Claim C1 fails on the code where the caller names an \<^verbatim>\<open>Accept\<close> header of their
  own: for a config whose headers hold \<^verbatim>\<open>Accept: text/html\<close> the config returned
  has \<^verbatim>\<open>headers.Accept\<close> equal to \<^verbatim>\<open>text/html\<close>, not
  \<^verbatim>\<open>application/json\<close>. The caller's headers are the last source of the
  \<^verbatim>\<open>Object.assign\<close>, so the caller's value overwrites the one the function sets.
\<close>

theorem C1_caller_accept_wins:
  "read_result (withAcceptJSON caller_heap (VRef 0)) [''headers'', ''Accept'']
     = Inr (VStr ''text/html'')"
  by (simp add: read_result_def withAcceptJSON_def caller_heap_def default_empty_def alloc_def
        assign_props_def Let_def)

text \<open>The same config through \<^verbatim>\<open>getJSON\<close>: the transport is handed \<^verbatim>\<open>text/html\<close>.\<close>

lemma getJSON_sends_caller_accept:
  "\<exists>h' c. getJSON caller_heap (VStr ''/some/data'') (VRef 0)
            = Inr (h', Call ''get'' [VStr ''/some/data'', c])
        \<and> get_path h' c [''headers'', ''Accept''] = Inr (VStr ''text/html'')"
  by (simp add: getJSON_def get_def withAcceptJSON_def withCancelToken_def caller_heap_def
        default_empty_def or_empty_def alloc_def assign_props_def Let_def)

text \<open>
  Claim C8. For every config object of the caller, in a closed heap, each of
  \<^verbatim>\<open>withAcceptJSON\<close> and \<^verbatim>\<open>withCancelToken\<close> returns a new copy and leaves what
  existed unchanged. The object returned did not exist before the call. Every object
  that existed before the call, the argument and the headers, token and source objects
  it refers to among them, is after the call what it was before: the old heap is an
  initial segment of the new one. The object returned reads, for every property name
  but \<^verbatim>\<open>headers\<close> (for \<^verbatim>\<open>withCancelToken\<close>: but \<^verbatim>\<open>cancelToken\<close>), what the
  argument reads. Its \<^verbatim>\<open>headers\<close> is a new object too, which holds the headers
  \<open>ps\<close> of the caller and \<^verbatim>\<open>Accept: application/json\<close> where the caller names no
  \<^verbatim>\<open>Accept\<close>; its \<^verbatim>\<open>cancelToken\<close> is the chosen token.
\<close>

theorem C8_composers_leave_argument_unchanged:
  assumes "closed_heap h" and "a < length h" and "distinct (map fst (h ! a))"
      and "get_prop h (VRef a) ''headers'' = Inr hs"
      and "own_props h hs = Inr ps" and "distinct (map fst ps)"
  shows "(\<exists>h' r t. withAcceptJSON h (VRef a) = Inr (h', VRef r)
             \<and> length h \<le> r \<and> r < length h' \<and> take (length h) h' = h
             \<and> (\<forall>k. k \<noteq> ''headers'' \<longrightarrow> get_prop h' (VRef r) k = get_prop h (VRef a) k)
             \<and> get_prop h' (VRef r) ''headers'' = Inr (VRef t)
             \<and> length h \<le> t \<and> t < length h'
             \<and> (\<forall>k. get_prop h' (VRef t) k =
                   Inr (case map_of ps k of
                          Some v \<Rightarrow> v
                        | None \<Rightarrow> if k = ''Accept'' then VStr ''application/json''
                                  else VUndefined)))
       \<and> (\<exists>h' r. withCancelToken h (VRef a) = Inr (h', VRef r)
             \<and> length h \<le> r \<and> r < length h' \<and> take (length h) h' = h
             \<and> (\<forall>k. k \<noteq> ''cancelToken'' \<longrightarrow> get_prop h' (VRef r) k = get_prop h (VRef a) k)
             \<and> get_prop h' (VRef r) ''cancelToken'' = Inr (chosen_token h (VRef a)))"
  by (rule conjI [OF withAcceptJSON_result [OF assms(2-6)]
                      withCancelToken_result [OF assms(1-3)]])

text \<open>
  Claim C8 at a config object with a timeout, headers and a cancel source: both
  copies keep the timeout, the first has new headers with the caller's entries, the
  second has the headers object of the caller and the token of the source.
\<close>

theorem C8_witness:
  "(\<exists>h' r t. withAcceptJSON caller_heap (VRef 0) = Inr (h', VRef r)
        \<and> 4 \<le> r \<and> r < length h' \<and> take 4 h' = caller_heap
        \<and> get_prop h' (VRef r) ''timeout'' = Inr (VNum 5)
        \<and> get_prop h' (VRef r) ''cancelSource'' = Inr (VRef 2)
        \<and> get_prop h' (VRef r) ''headers'' = Inr (VRef t) \<and> 4 \<le> t
        \<and> get_prop h' (VRef t) ''X-Trace'' = Inr (VStr ''on''))
   \<and> (\<exists>h' r. withCancelToken caller_heap (VRef 0) = Inr (h', VRef r)
        \<and> 4 \<le> r \<and> r < length h' \<and> take 4 h' = caller_heap
        \<and> get_prop h' (VRef r) ''timeout'' = Inr (VNum 5)
        \<and> get_prop h' (VRef r) ''headers'' = Inr (VRef 1)
        \<and> get_prop h' (VRef r) ''cancelToken'' = Inr (VRef 3))"
proof -
  let ?ps = "[(''Accept'', VStr ''text/html''), (''X-Trace'', VStr ''on'')]"
  have c: "closed_heap caller_heap"
    by (simp add: closed_heap_def caller_heap_def)
  have l: "length caller_heap = 4"
    by (simp add: caller_heap_def)
  have a: "0 < length caller_heap"
    by (simp add: l)
  have da: "distinct (map fst (caller_heap ! 0))"
    by (simp add: caller_heap_def)
  have hs: "get_prop caller_heap (VRef 0) ''headers'' = Inr (VRef 1)"
    by (simp add: caller_heap_def)
  have ps: "own_props caller_heap (VRef 1) = Inr ?ps"
    by (simp add: caller_heap_def)
  have dist: "distinct (map fst ?ps)"
    by simp
  have old: "get_prop caller_heap (VRef 0) ''timeout'' = Inr (VNum 5)"
            "get_prop caller_heap (VRef 0) ''cancelSource'' = Inr (VRef 2)"
            "get_prop caller_heap (VRef 0) ''headers'' = Inr (VRef 1)"
    by (simp_all add: caller_heap_def)
  have tok: "chosen_token caller_heap (VRef 0) = VRef 3"
    by (simp add: chosen_token_def prop_or_undefined_def caller_heap_def)
  note both = C8_composers_leave_argument_unchanged [OF c a da hs ps dist, unfolded l tok]
  from both [THEN conjunct1] obtain h1 r1 t where
        r1: "withAcceptJSON caller_heap (VRef 0) = Inr (h1, VRef r1)"
            "4 \<le> r1" "r1 < length h1" "take 4 h1 = caller_heap"
    and c1: "\<forall>k. k \<noteq> ''headers'' \<longrightarrow> get_prop h1 (VRef r1) k = get_prop caller_heap (VRef 0) k"
    and t1: "get_prop h1 (VRef r1) ''headers'' = Inr (VRef t)" "4 \<le> t"
    and p1: "\<forall>k. get_prop h1 (VRef t) k =
                Inr (case map_of ?ps k of
                       Some v \<Rightarrow> v
                     | None \<Rightarrow> if k = ''Accept'' then VStr ''application/json''
                               else VUndefined)"
    by blast
  from both [THEN conjunct2] obtain h2 r2 where
        r2: "withCancelToken caller_heap (VRef 0) = Inr (h2, VRef r2)"
            "4 \<le> r2" "r2 < length h2" "take 4 h2 = caller_heap"
    and c2: "\<forall>k. k \<noteq> ''cancelToken'' \<longrightarrow> get_prop h2 (VRef r2) k = get_prop caller_heap (VRef 0) k"
    and t2: "get_prop h2 (VRef r2) ''cancelToken'' = Inr (VRef 3)"
    by blast
  have f1: "get_prop h1 (VRef r1) ''timeout'' = Inr (VNum 5)"
           "get_prop h1 (VRef r1) ''cancelSource'' = Inr (VRef 2)"
    using c1 old by (simp_all del: get_prop.simps)
  have x1: "get_prop h1 (VRef t) ''X-Trace'' = Inr (VStr ''on'')"
    by (simp add: p1 del: get_prop.simps)
  have f2: "get_prop h2 (VRef r2) ''timeout'' = Inr (VNum 5)"
           "get_prop h2 (VRef r2) ''headers'' = Inr (VRef 1)"
    using c2 old by (simp_all del: get_prop.simps)
  have A: "\<exists>h' r t. withAcceptJSON caller_heap (VRef 0) = Inr (h', VRef r)
        \<and> 4 \<le> r \<and> r < length h' \<and> take 4 h' = caller_heap
        \<and> get_prop h' (VRef r) ''timeout'' = Inr (VNum 5)
        \<and> get_prop h' (VRef r) ''cancelSource'' = Inr (VRef 2)
        \<and> get_prop h' (VRef r) ''headers'' = Inr (VRef t) \<and> 4 \<le> t
        \<and> get_prop h' (VRef t) ''X-Trace'' = Inr (VStr ''on'')"
    using r1 f1 t1 x1 by (intro exI [of _ h1] exI [of _ r1] exI [of _ t]) (simp del: get_prop.simps)
  have B: "\<exists>h' r. withCancelToken caller_heap (VRef 0) = Inr (h', VRef r)
        \<and> 4 \<le> r \<and> r < length h' \<and> take 4 h' = caller_heap
        \<and> get_prop h' (VRef r) ''timeout'' = Inr (VNum 5)
        \<and> get_prop h' (VRef r) ''headers'' = Inr (VRef 1)
        \<and> get_prop h' (VRef r) ''cancelToken'' = Inr (VRef 3)"
    using r2 f2 t2 by (intro exI [of _ h2] exI [of _ r2]) (simp del: get_prop.simps)
  show ?thesis
    by (rule conjI [OF A B])
qed

section \<open>Properties of the verb facades\<close>







section \<open>Properties of initialisation\<close>

lemma set_prop_length [simp]: "length (set_prop h a k x) = length h"
  by (simp add: set_prop_def)

lemma set_prop_other [simp]: "b \<noteq> a \<Longrightarrow> set_prop h a k x ! b = h ! b"
  by (simp add: set_prop_def)

lemma get_prop_set_prop:
  "get_prop (set_prop h a k x) v k' =
     (if v = VRef a \<and> a < length h \<and> k' = k then Inr x else get_prop h v k')"
proof (cases "a < length h")
  case True
  then show ?thesis
    by (cases v) (auto simp add: set_prop_def AList.update_conv' nth_list_update)
next
  case False
  then have "h[a := AList.update k x (h ! a)] = h" by (intro list_update_beyond) simp
  with False show ?thesis by (simp add: set_prop_def)
qed

lemma get_path_set_prop:
  "k \<notin> set ks \<Longrightarrow> get_path (set_prop h a k x) v ks = get_path h v ks"
  by (induction ks arbitrary: v) (auto simp add: get_prop_set_prop split: sum.splits)

lemma get_prop_alloc:
  "get_prop h v k = Inr w \<Longrightarrow> get_prop (h @ [ob]) v k = Inr w"
  by (cases v) (auto simp add: nth_append split: if_splits)

lemma get_path_alloc:
  "get_path h v ks = Inr w \<Longrightarrow> get_path (h @ [ob]) v ks = Inr w"
proof (induction ks arbitrary: v)
  case Nil
  then show ?case by simp
next
  case (Cons k ks)
  from Cons.prems obtain u where u: "get_prop h v k = Inr u" "get_path h u ks = Inr w"
    by (auto split: sum.splits)
  from get_prop_alloc [OF u(1)] Cons.IH [OF u(2)] show ?case by simp
qed

lemma get_path_snoc:
  "get_path h v (ks @ [k]) =
     (case get_path h v ks of Inl e \<Rightarrow> Inl e | Inr w \<Rightarrow> get_prop h w k)"
  by (induction ks arbitrary: v) (auto split: sum.splits)

lemma ref_atD:
  "ref_at h v ks = Some a \<Longrightarrow> get_path h v ks = Inr (VRef a) \<and> a < length h"
  by (auto simp add: ref_at_def split: sum.splits val.splits if_splits)

lemma set_show_nat: "set (show_nat n) \<subseteq> set ''0123456789''"
proof (induction n rule: show_nat.induct)
  case (1 n)
  have d: "\<And>m. m < 10 \<Longrightarrow> digit m \<in> set ''0123456789''"
    unfolding digit_def by (rule nth_mem) simp
  show ?case
  proof (cases "n < 10")
    case True
    then show ?thesis using d [of n] by (subst show_nat.simps) simp
  next
    case False
    have "digit (n mod 10) \<in> set ''0123456789''" by (rule d) simp
    with False 1 show ?thesis by (subst show_nat.simps) simp
  qed
qed

lemma show_nat_not_name:
  "c \<in> set s \<Longrightarrow> c \<notin> set ''0123456789'' \<Longrightarrow> show_nat n \<noteq> s"
  using set_show_nat [of n] by auto

lemma region_paths:
  assumes "closed_region h G" and "\<forall>b\<in>set G. h' ! b = h ! b" and "length h \<le> length h'"
  shows "in_region G v \<Longrightarrow> get_path h' v ks = get_path h v ks"
proof (induction ks arbitrary: v)
  case Nil
  then show ?case by simp
next
  case (Cons k ks)
  show ?case
  proof (cases v)
    case (VRef b)
    with Cons.prems have b: "b \<in> set G" by simp
    then have bl: "b < length h" and cl: "list_all (\<lambda>(k, x). in_region G x) (h ! b)"
      using assms(1) by (auto simp add: closed_region_def list_all_iff)
    have eq: "h' ! b = h ! b" using assms(2) b by simp
    have gp: "get_prop h' v k = get_prop h v k"
      using VRef bl assms(3) eq by simp
    show ?thesis
    proof (cases "map_of (h ! b) k")
      case None
      then have "get_prop h v k = Inr VUndefined" using VRef bl by simp
      with gp Cons.IH [of VUndefined] show ?thesis by simp
    next
      case (Some w)
      then have "(k, w) \<in> set (h ! b)" by (rule map_of_SomeD)
      then have "in_region G w" using cl by (auto simp add: list_all_iff)
      moreover have "get_prop h v k = Inr w" using VRef bl Some by simp
      ultimately show ?thesis using gp Cons.IH [of w] by simp
    qed
  next
    case VUndefined then show ?thesis by simp
  next
    case VNull then show ?thesis by simp
  next
    case (VBool x) then show ?thesis using Cons.IH [of VUndefined] by simp
  next
    case (VNum x) then show ?thesis using Cons.IH [of VUndefined] by simp
  next
    case (VStr x) then show ?thesis using Cons.IH [of VUndefined] by simp
  next
    case (VFun x) then show ?thesis using Cons.IH [of VUndefined] by simp
  qed
qed


lemma written_objectsD:
  assumes "written_objects h inst = Some [d, p1, p2, p3, arr]"
  shows "ref_at h inst [''defaults''] = Some d"
    and "ref_at h inst [''defaults'', ''headers'', ''post''] = Some p1"
    and "ref_at h inst [''defaults'', ''headers'', ''put''] = Some p2"
    and "ref_at h inst [''defaults'', ''headers'', ''patch''] = Some p3"
    and "ref_at h inst [''interceptors'', ''response'', ''handlers''] = Some arr"
  using assms by (auto simp add: written_objects_def split: Option.bind_splits)


lemma set_prop_nth:
  "a < length h \<Longrightarrow> set_prop h a k x ! a = AList.update k x (h ! a)"
  by (simp add: set_prop_def)

text \<open>The effect of initialisation through an instance, object by object.\<close>

lemma install_effect:
  assumes wo: "written_objects h inst = Some [d, p1, p2, p3, arr]"
      and sep: "arr \<notin> set [d, p1, p2, p3]"
  defines "json \<equiv> VStr ''application/json''"
  defines "h2 \<equiv> set_prop (set_prop (set_prop (set_prop h d ''timeout'' (VNum 3000))
                     p1 ''Content-Type'' json) p2 ''Content-Type'' json) p3 ''Content-Type'' json"
  defines "pair \<equiv> [(''fulfilled'', VFun ''fulfilledResponseInterceptor''),
                    (''rejected'', VFun ''rejectedResponseInterceptor'')]"
  shows "setCaxiosDefaults h axios inst
           = Inr (set_prop (h2 @ [pair]) arr (show_nat (length (h ! arr))) (VRef (length h)))"
    and "setGlobalDefaults h inst
           = Inr (set_prop (h2 @ [pair]) arr (show_nat (length (h ! arr))) (VRef (length h)))"
proof -
  note refs = written_objectsD [OF wo]
  have d: "get_prop h inst ''defaults'' = Inr (VRef d)" "d < length h"
    using ref_atD [OF refs(1)] by (auto split: sum.splits)
  have p: "get_path h inst [''defaults'', ''headers'', ''post''] = Inr (VRef p1)" "p1 < length h"
          "get_path h inst [''defaults'', ''headers'', ''put''] = Inr (VRef p2)" "p2 < length h"
          "get_path h inst [''defaults'', ''headers'', ''patch''] = Inr (VRef p3)" "p3 < length h"
    using ref_atD [OF refs(2)] ref_atD [OF refs(3)] ref_atD [OF refs(4)] by simp_all
  have arr: "get_path h inst ([''interceptors'', ''response''] @ [''handlers'']) = Inr (VRef arr)"
            "arr < length h"
    using ref_atD [OF refs(5)] by simp_all
  then obtain manager where m: "get_path h inst [''interceptors'', ''response''] = Inr manager"
      "get_prop h manager ''handlers'' = Inr (VRef arr)"
    unfolding get_path_snoc by (auto split: sum.splits)
  let ?h1 = "set_prop h d ''timeout'' (VNum 3000)"
  let ?ha = "set_prop ?h1 p1 ''Content-Type'' json"
  let ?hb = "set_prop ?ha p2 ''Content-Type'' json"
  have s1: "put_prop h (VRef d) ''timeout'' (VNum (1000 * 3)) = Inr ?h1"
    using d(2) by simp
  have fe: "forEach_method ?h1 inst [''post'', ''put'', ''patch''] = Inr h2"
    unfolding forEach_method.simps
    using p by (simp add: get_path_set_prop h2_def json_def del: get_path.simps)
  have m2: "get_path h2 inst [''interceptors'', ''response''] = Inr manager"
    unfolding h2_def using m(1) by (simp add: get_path_set_prop del: get_path.simps)
  have hd2: "get_prop h2 manager ''handlers'' = Inr (VRef arr)"
    unfolding h2_def using m(2) by (simp add: get_prop_set_prop)
  have l2: "length h2 = length h" unfolding h2_def by simp
  have a2: "h2 ! arr = h ! arr"
    unfolding h2_def using sep by simp
  have u: "use h2 manager (VFun ''fulfilledResponseInterceptor'')
             (VFun ''rejectedResponseInterceptor'')
           = Inr (set_prop (h2 @ [pair]) arr (show_nat (length (h ! arr))) (VRef (length h)))"
    using hd2 arr(2) l2 a2 by (simp add: use_def alloc_def pair_def)
  show "setCaxiosDefaults h axios inst
           = Inr (set_prop (h2 @ [pair]) arr (show_nat (length (h ! arr))) (VRef (length h)))"
    unfolding setCaxiosDefaults_def
    by (simp only: d(1) s1 fe m2 u sum.case)
  show "setGlobalDefaults h inst
           = Inr (set_prop (h2 @ [pair]) arr (show_nat (length (h ! arr))) (VRef (length h)))"
    unfolding setGlobalDefaults_def
    by (simp only: d(1) s1 fe m2 u sum.case)
qed


lemma digits_only [simp]:
  "\<not> set s \<subseteq> set ''0123456789'' \<Longrightarrow> show_nat n \<noteq> s"
  "\<not> set s \<subseteq> set ''0123456789'' \<Longrightarrow> s \<noteq> show_nat n"
  using set_show_nat [of n] by auto

text \<open>
  What \<^verbatim>\<open>setCaxiosDefaults\<close> writes. Through an instance whose five written objects
  are none of the objects of a region \<open>G\<close> closed under references, it sets the
  timeout 3000, the content type \<^verbatim>\<open>application/json\<close> for post, put and patch and
  the pair of the two hooks as the new last response handler; no object other than
  those five changes, and every property path from a value of the region reads what
  it read before.
\<close>

lemma setCaxiosDefaults_writes_five_objects:
  assumes wo: "written_objects h caxios = Some [d, p1, p2, p3, arr]"
      and sep: "arr \<notin> set [d, p1, p2, p3]"
      and reg: "closed_region h G" and ax: "in_region G axios"
      and iso: "set G \<inter> set [d, p1, p2, p3, arr] = {}"
  shows "\<exists>h'. setCaxiosDefaults h axios caxios = Inr h'
          \<and> get_path h' caxios [''defaults'', ''timeout''] = Inr (VNum 3000)
          \<and> get_path h' caxios [''defaults'', ''headers'', ''post'', ''Content-Type'']
              = Inr (VStr ''application/json'')
          \<and> get_path h' caxios [''defaults'', ''headers'', ''put'', ''Content-Type'']
              = Inr (VStr ''application/json'')
          \<and> get_path h' caxios [''defaults'', ''headers'', ''patch'', ''Content-Type'']
              = Inr (VStr ''application/json'')
          \<and> get_path h' caxios
                [''interceptors'', ''response'', ''handlers'', show_nat (length (h ! arr))]
              = Inr (VRef (length h))
          \<and> h' ! length h = [(''fulfilled'', VFun ''fulfilledResponseInterceptor''),
                              (''rejected'', VFun ''rejectedResponseInterceptor'')]
          \<and> (\<forall>b<length h. b \<notin> set [d, p1, p2, p3, arr] \<longrightarrow> h' ! b = h ! b)
          \<and> (\<forall>ks. get_path h' axios ks = get_path h axios ks)"
proof -
  let ?json = "VStr ''application/json''"
  let ?pair = "[(''fulfilled'', VFun ''fulfilledResponseInterceptor''),
                (''rejected'', VFun ''rejectedResponseInterceptor'')]"
  let ?h2 = "set_prop (set_prop (set_prop (set_prop h d ''timeout'' (VNum 3000))
               p1 ''Content-Type'' ?json) p2 ''Content-Type'' ?json) p3 ''Content-Type'' ?json"
  let ?n = "show_nat (length (h ! arr))"
  let ?h' = "set_prop (?h2 @ [?pair]) arr ?n (VRef (length h))"
  note refs = written_objectsD [OF wo]
  have run: "setCaxiosDefaults h axios caxios = Inr ?h'"
    using install_effect(1) [OF wo sep] .
  have lt: "d < length h" "p1 < length h" "p2 < length h" "p3 < length h" "arr < length h"
    using refs [THEN ref_atD] by simp_all
  have lift: "get_path ?h' v ks = Inr w"
    if "get_path h v ks = Inr w" "''timeout'' \<notin> set ks" "''Content-Type'' \<notin> set ks"
       "?n \<notin> set ks" for v ks w
  proof -
    have "get_path ?h2 v ks = Inr w"
      using that by (simp add: get_path_set_prop del: get_path.simps)
    then have "get_path (?h2 @ [?pair]) v ks = Inr w"
      by (rule get_path_alloc)
    then show ?thesis
      using that(4) by (simp add: get_path_set_prop del: get_path.simps)
  qed
  have pd: "get_path ?h' caxios [''defaults''] = Inr (VRef d)"
    by (rule lift) (use refs(1) [THEN ref_atD] in simp_all)
  have pp: "get_path ?h' caxios [''defaults'', ''headers'', ''post''] = Inr (VRef p1)"
           "get_path ?h' caxios [''defaults'', ''headers'', ''put''] = Inr (VRef p2)"
           "get_path ?h' caxios [''defaults'', ''headers'', ''patch''] = Inr (VRef p3)"
    by (rule lift, use refs(2-4) [THEN ref_atD] in \<open>simp_all del: get_path.simps\<close>)+
  have pa: "get_path ?h' caxios [''interceptors'', ''response'', ''handlers''] = Inr (VRef arr)"
    by (rule lift) (use refs(5) [THEN ref_atD] in \<open>simp_all del: get_path.simps\<close>)
  have cell: "get_prop ?h' (VRef d) ''timeout'' = Inr (VNum 3000)"
             "get_prop ?h' (VRef p1) ''Content-Type'' = Inr ?json"
             "get_prop ?h' (VRef p2) ''Content-Type'' = Inr ?json"
             "get_prop ?h' (VRef p3) ''Content-Type'' = Inr ?json"
             "get_prop ?h' (VRef arr) ?n = Inr (VRef (length h))"
    using lt by (simp_all add: get_prop_set_prop del: get_prop.simps)
  have t: "get_path ?h' caxios ([''defaults''] @ [''timeout'']) = Inr (VNum 3000)"
    unfolding get_path_snoc by (simp only: pd cell sum.case)
  have c1: "get_path ?h' caxios ([''defaults'', ''headers'', ''post''] @ [''Content-Type''])
              = Inr ?json"
    unfolding get_path_snoc by (simp only: pp cell sum.case)
  have c2: "get_path ?h' caxios ([''defaults'', ''headers'', ''put''] @ [''Content-Type''])
              = Inr ?json"
    unfolding get_path_snoc by (simp only: pp cell sum.case)
  have c3: "get_path ?h' caxios ([''defaults'', ''headers'', ''patch''] @ [''Content-Type''])
              = Inr ?json"
    unfolding get_path_snoc by (simp only: pp cell sum.case)
  have hn: "get_path ?h' caxios ([''interceptors'', ''response'', ''handlers''] @ [?n])
              = Inr (VRef (length h))"
    unfolding get_path_snoc by (simp only: pa cell sum.case)
  have new: "?h' ! length h = ?pair"
    using lt(5) by (simp add: nth_append)
  have frame: "\<forall>b<length h. b \<notin> set [d, p1, p2, p3, arr] \<longrightarrow> ?h' ! b = h ! b"
    by (simp add: nth_append)
  have "\<forall>b\<in>set G. ?h' ! b = h ! b"
  proof
    fix b assume b: "b \<in> set G"
    then have "b < length h"
      using reg by (auto simp add: closed_region_def list_all_iff)
    moreover have "b \<notin> set [d, p1, p2, p3, arr]"
      using iso b by blast
    ultimately show "?h' ! b = h ! b" using frame by blast
  qed
  then have glob: "\<forall>ks. get_path ?h' axios ks = get_path h axios ks"
    using region_paths [OF reg _ _ ax, of ?h'] by simp
  show ?thesis
    using run t c1 c2 c3 hn new frame glob
    by (intro exI [of _ ?h']) (simp del: get_path.simps set_simps)
qed


text \<open>
  Claim C9 fails on the code. Loading the module over a heap that holds the shared
  instance, with the content type \<^verbatim>\<open>application/x-www-form-urlencoded\<close> for post,
  put and patch and the timeout 0, leaves the shared instance with the content type
  \<^verbatim>\<open>application/json\<close> for all three: the instance \<^verbatim>\<open>axios.create()\<close> returns
  refers to the header objects of the shared instance, and the content type is written
  into them. The timeout, written to the \<^verbatim>\<open>defaults\<close> of the new instance, stays 0
  on the shared one and is 3000 on the new one.
\<close>

theorem C9_shared_headers_change:
  "get_path (wired 0) (VRef 0) [''defaults'', ''headers'', ''post'', ''Content-Type'']
     = Inr (VStr ''application/x-www-form-urlencoded'')
   \<and> read_result (module_init (wired 0) (VRef 0))
         [''defaults'', ''headers'', ''post'', ''Content-Type'']
       = Inr (VStr ''application/json'')
   \<and> (\<exists>h' c. module_init (wired 0) (VRef 0) = Inr (h', c)
         \<and> get_path h' (VRef 0) [''defaults'', ''headers'', ''post'', ''Content-Type'']
             = Inr (VStr ''application/json'')
         \<and> get_path h' (VRef 0) [''defaults'', ''headers'', ''put'', ''Content-Type'']
             = Inr (VStr ''application/json'')
         \<and> get_path h' (VRef 0) [''defaults'', ''headers'', ''patch'', ''Content-Type'']
             = Inr (VStr ''application/json'')
         \<and> get_path h' (VRef 0) [''defaults'', ''timeout''] = Inr (VNum 0)
         \<and> get_path h' c [''defaults'', ''timeout''] = Inr (VNum 3000))"
  by (simp add: module_init_def create_def setCaxiosDefaults_def use_def wired_def alloc_def
        assign_props_def set_prop_def read_result_def Let_def)

text \<open>
  The instance \<^verbatim>\<open>axios.create()\<close> returns does not meet the condition of
  \<open>setCaxiosDefaults_writes_five_objects\<close>: three of the five objects written
  through it are the header objects of the shared instance.
\<close>

lemma created_instance_shares_headers:
  "\<exists>h1 c. create (wired 0) (VRef 0) = Inr (h1, c)
        \<and> written_objects (wired 0) (VRef 0) = Some [1, 3, 4, 5, 10]
        \<and> written_objects h1 c = Some [11, 3, 4, 5, 14]"
  by (simp add: create_def written_objects_def ref_at_def wired_def alloc_def assign_props_def
        Let_def)

text \<open>
  The earlier revision, which has no instance of its own, writes all three settings
  to the shared instance: its timeout is 0 before and 3000 after.
\<close>

lemma setGlobalDefaults_writes_shared_instance:
  "\<exists>h'. setGlobalDefaults (wired 0) (VRef 0) = Inr h'
        \<and> get_path (wired 0) (VRef 0) [''defaults'', ''timeout''] = Inr (VNum 0)
        \<and> get_path h' (VRef 0) [''defaults'', ''timeout''] = Inr (VNum 3000)"
proof -
  have wo: "written_objects (wired 0) (VRef 0) = Some [1, 3, 4, 5, 10]"
    by (simp add: written_objects_def ref_at_def wired_def)
  have sep: "(10::nat) \<notin> set [1, 3, 4, 5]"
    by simp
  show ?thesis
    unfolding install_effect(2) [OF wo sep]
    by (simp add: wired_def set_prop_def)
qed

end
